theory Spec2Isabelle
  imports
    Complex_Main
    "HOL-Library.Char_ord"
    "HOL-Library.List_Lexorder"
    "HOL-Library.Multiset"
    "HOL-Library.Sublist"
begin

section \<open>JavaScript values\<close>

text \<open>
  A string is a list of 8-bit characters, compared as JavaScript compares strings:
  character by character, a proper prefix first. This is the order \<open>Array.prototype.sort\<close>
  uses without a comparator, and the order of \<^const>\<open>sort\<close> on strings here.
\<close>

text \<open>
  A JavaScript number is an IEEE double. Its finite values are rationals; the three
  special values are kept apart, because the comparisons of the source treat them
  differently (\<open>NaN < 0\<close> and \<open>NaN <= 0\<close> are both false).
\<close>

datatype jsnum = Finite rat | PosInfinity | NegInfinity | NaN

text \<open>\<open>x < 0\<close>, \<open>x <= 0\<close> and \<open>x > bound\<close> on numbers, and \<open>Number.isInteger\<close>.\<close>

fun js_lt0 :: "jsnum \<Rightarrow> bool" where
  "js_lt0 (Finite q) = (q < 0)"
| "js_lt0 PosInfinity = False"
| "js_lt0 NegInfinity = True"
| "js_lt0 NaN = False"

fun js_le0 :: "jsnum \<Rightarrow> bool" where
  "js_le0 (Finite q) = (q \<le> 0)"
| "js_le0 PosInfinity = False"
| "js_le0 NegInfinity = True"
| "js_le0 NaN = False"

fun js_gt :: "jsnum \<Rightarrow> rat \<Rightarrow> bool" where
  "js_gt (Finite q) b = (b < q)"
| "js_gt PosInfinity b = True"
| "js_gt NegInfinity b = False"
| "js_gt NaN b = False"

fun Number_isInteger :: "jsnum \<Rightarrow> bool" where
  "Number_isInteger (Finite q) = (of_int \<lfloor>q\<rfloor> = q)"
| "Number_isInteger PosInfinity = False"
| "Number_isInteger NegInfinity = False"
| "Number_isInteger NaN = False"

text \<open>
  The result of an arithmetic operation is the double nearest to the exact result, a
  tie going to the neighbour with the even significand; past the largest double it is
  an infinity. A double has 53 significant bits and a binary exponent from \<open>-1022\<close>
  to \<open>1023\<close>: the doubles around \<open>a\<close> are the multiples of \<open>2 ^ (e - 52)\<close>, where
  \<open>2 ^ e\<close> is the largest power of two, in that range of exponents, not above \<open>\<bar>a\<bar>\<close>
  (and \<open>e = -1022\<close> below all of them).
\<close>

definition double_exponent :: "rat \<Rightarrow> int" where
  "double_exponent a =
     (if \<exists>e \<in> {-1022..1023}. 2 powi e \<le> a
      then Max {e \<in> {-1022..1023}. 2 powi e \<le> a}
      else -1022)"

definition round_half_even :: "rat \<Rightarrow> int" where
  "round_half_even x =
     (let f = \<lfloor>x\<rfloor>; r = x - of_int f
      in if r < 1 / 2 then f
         else if 1 / 2 < r then f + 1
         else if even f then f else f + 1)"

definition to_double :: "rat \<Rightarrow> jsnum" where
  "to_double q =
     (let a = \<bar>q\<bar>;
          ulp = 2 powi (double_exponent a - 52);
          r = of_int (round_half_even (a / ulp)) * ulp
      in if 2 powi 1024 \<le> r then (if q < 0 then NegInfinity else PosInfinity)
         else Finite (if q < 0 then - r else r))"

text \<open>\<open>x--\<close> on a number: \<open>x - 1\<close>, as a double.\<close>

fun js_decrement :: "jsnum \<Rightarrow> jsnum" where
  "js_decrement (Finite q) = to_double (q - 1)"
| "js_decrement PosInfinity = PosInfinity"
| "js_decrement NegInfinity = NegInfinity"
| "js_decrement NaN = NaN"

text \<open>
  The values a JSON schema or a loaded YAML document is made of. An object is an
  association list of its own properties.
\<close>

datatype jsval =
    JUndefined
  | JNull
  | JBool bool
  | JNum jsnum
  | JStr string
  | JArr "jsval list"
  | JObj "(string \<times> jsval) list"

section \<open>The cell model of the SDK and of the validator\<close>

record cell_identity =
  name :: string
  cellType :: string
  version :: string

text \<open>\<open>CellInput\<close> and \<open>CellOutput\<close> have the same two fields.\<close>

record cell_io =
  schema :: jsval
  description :: string

record cell_lineage =
  source :: string
  trigger :: string
  justification :: string
  lineage_signature :: string

text \<open>\<open>CellSignature\<close>: \<open>children\<close> is optional, absent on a leaf signature.\<close>

record cell_signature =
  hash :: string
  sig_children :: "string list option"
  timestamp :: string

text \<open>
  The data fields of \<open>UniversalContract\<close>. Every cell class and the validator's
  \<open>DiscoveredCell\<close> extend it, as a TypeScript object with more fields does.
\<close>

text \<open>(\<open>input\<close> and \<open>output\<close> are written \<open>cell_input\<close> and \<open>cell_output\<close>.)\<close>

record universal_contract =
  identity :: cell_identity
  cell_input :: cell_io
  cell_output :: cell_io
  lineage :: cell_lineage
  signature :: cell_signature

section \<open>The signature engine (sdk/src/signature.ts)\<close>

text \<open>
  What the code takes from the JavaScript runtime is a parameter of the model: the
  digest \<open>createHash("sha256").update(data, "utf8").digest("hex")\<close>, \<open>JSON.stringify\<close>,
  the decimal form JavaScript gives a number inside a template literal or under
  \<open>String(...)\<close>, and the string form of a member of \<open>Object.prototype\<close> (a built-in
  function). The clock (\<open>new Date().toISOString()\<close>) is an argument of the functions
  that read it.
\<close>

record node_runtime =
  createHash_sha256_hex :: "string \<Rightarrow> string"
  JSON_stringify :: "jsval \<Rightarrow> string"
  Number_toString :: "jsnum \<Rightarrow> string"
  Object_prototype_member_toString :: "string \<Rightarrow> string"

definition cellContent :: "node_runtime \<Rightarrow> 'a universal_contract_scheme \<Rightarrow> string" where
  "cellContent rt cell =
     name (identity cell) @
     cellType (identity cell) @
     version (identity cell) @
     JSON_stringify rt (schema (cell_input cell)) @
     JSON_stringify rt (schema (cell_output cell)) @
     source (lineage cell) @
     trigger (lineage cell) @
     justification (lineage cell)"

definition sha256 :: "node_runtime \<Rightarrow> string \<Rightarrow> string" where
  "sha256 rt data = createHash_sha256_hex rt data"

definition computeLeafSignature ::
  "node_runtime \<Rightarrow> string \<Rightarrow> 'a universal_contract_scheme \<Rightarrow> cell_signature" where
  "computeLeafSignature rt now cell =
     \<lparr>hash = sha256 rt (cellContent rt cell), sig_children = None, timestamp = now\<rparr>"

definition computeComposedSignature ::
  "node_runtime \<Rightarrow> string \<Rightarrow> 'a universal_contract_scheme \<Rightarrow> cell_signature list
     \<Rightarrow> cell_signature" where
  "computeComposedSignature rt now cell childSignatures =
     (let sortedChildHashes = sort (map hash childSignatures);
          content = cellContent rt cell @ concat sortedChildHashes
      in \<lparr>hash = sha256 rt content, sig_children = Some sortedChildHashes, timestamp = now\<rparr>)"

text \<open>\<open>childSignatures\<close> is an optional argument: \<open>None\<close> when it is not passed.\<close>

definition verifySignature ::
  "node_runtime \<Rightarrow> string \<Rightarrow> 'a universal_contract_scheme \<Rightarrow> cell_signature list option
     \<Rightarrow> bool" where
  "verifySignature rt now cell childSignatures =
     (let fresh =
        (case childSignatures of
           Some cs \<Rightarrow>
             if length cs > 0 then computeComposedSignature rt now cell cs
             else computeLeafSignature rt now cell
         | None \<Rightarrow> computeLeafSignature rt now cell)
      in hash fresh = hash (signature cell))"


section \<open>Strings of the messages\<close>

text \<open>The double quote, the apostrophe and the em dash (three bytes of UTF-8).\<close>

definition dq :: string where
  "dq = [CHR 0x22]"

definition apos :: string where
  "apos = [CHR 0x27]"

definition emdash :: string where
  "emdash = [CHR 0xE2, CHR 0x80, CHR 0x94]"

text \<open>A length or an index inside a template literal: its decimal digits.\<close>

definition digit_char :: "nat \<Rightarrow> char" where
  "digit_char d = char_of (48 + d)"

fun show_nat :: "nat \<Rightarrow> string" where
  "show_nat n = (if n < 10 then [digit_char n] else show_nat (n div 10) @ [digit_char (n mod 10)])"

declare show_nat.simps [simp del]

text \<open>\<open>String.prototype.startsWith\<close> is \<^const>\<open>prefix\<close>; \<open>includes\<close> on strings:\<close>

fun str_includes :: "string \<Rightarrow> string \<Rightarrow> bool" where
  "str_includes [] sub = (sub = [])"
| "str_includes (c # cs) sub = (prefix sub (c # cs) \<or> str_includes cs sub)"

text \<open>\<open>Array.prototype.join\<close> with a separator.\<close>

fun join :: "string \<Rightarrow> string list \<Rightarrow> string" where
  "join sep [] = []"
| "join sep [x] = x"
| "join sep (x # y # ys) = x @ sep @ join sep (y # ys)"

text \<open>
  \<open>String(v)\<close>, which is also what a template literal does to \<open>v\<close>. An array joins
  its elements with commas, \<open>null\<close> and \<open>undefined\<close> elements giving the empty string.
\<close>

fun js_String :: "node_runtime \<Rightarrow> jsval \<Rightarrow> string" where
  "js_String rt JUndefined = ''undefined''"
| "js_String rt JNull = ''null''"
| "js_String rt (JBool b) = (if b then ''true'' else ''false'')"
| "js_String rt (JNum n) = Number_toString rt n"
| "js_String rt (JStr s) = s"
| "js_String rt (JArr xs) =
     join '','' (map (\<lambda>x. if x = JUndefined \<or> x = JNull then [] else js_String rt x) xs)"
| "js_String rt (JObj kvs) = ''[object Object]''"

section \<open>The validator's cell (validator/src/types/cell.ts)\<close>

record context_map_entry =
  cm_identity :: cell_identity
  cm_parent :: "string option"
  cm_children :: "string list option"
  cm_channels :: "string list option"
  cm_signature :: string

text \<open>
  \<open>CellHealth\<close>. At run time \<open>budgetRemaining\<close> holds whatever \<open>health()\<close> returned,
  so it is a JavaScript value: \<open>JUndefined\<close> when the report omits it.
\<close>

datatype cell_health =
  CellHealth
    (status: string)
    (health_message: "string option")
    (budgetRemaining: jsval)
    (health_children: "(string \<times> cell_health) list option")

record discovered_fields = universal_contract +
  filePath :: string
  contextMap :: context_map_entry
  hasHealthMethod :: bool
  hasToMapMethod :: bool
  healthReport :: "cell_health option"

text \<open>\<open>DiscoveredCell\<close>: its own fields and the list of its children.\<close>

datatype discovered_cell =
  DiscoveredCell (props: discovered_fields) (children: "discovered_cell list")

record violation =
  v_cell :: string
  v_file :: string
  v_message :: string
  v_principle :: string

record check_result =
  checkName :: string
  passed :: bool
  violations :: "violation list"

lemma size_children [termination_simp]:
  "child \<in> set (children cell) \<Longrightarrow> size child < size cell"
  by (cases cell) (auto simp: less_Suc_eq_le dest: size_list_estimation')

lemma elem_size_list:
  "x \<in> set xs \<Longrightarrow> f x < size_list f xs"
  by (induction xs) auto

lemma size_child_list:
  assumes "x \<in> set cells"
  shows "size_list size (children x) < size_list size cells"
proof -
  have "size_list size (children x) < size x"
    by (cases x) simp
  moreover have "size x < size_list size cells"
    using assms by (rule elem_size_list)
  ultimately show ?thesis by simp
qed

lemma size_grandchild:
  assumes "x \<in> set cells" and "xa \<in> set (children x)"
  shows "Suc (size xa) < size_list size cells"
proof -
  have "size xa < size x"
    using assms(2) by (rule size_children)
  moreover have "size x < size_list size cells"
    using assms(1) by (rule elem_size_list)
  ultimately show ?thesis by simp
qed

section \<open>Composition check (validator/src/checks/composition-check.ts)\<close>

definition ctx :: "discovered_cell \<Rightarrow> string \<Rightarrow> string \<Rightarrow> violation" where
  "ctx cell principle msg =
     \<lparr>v_cell = name (identity (props cell)), v_file = filePath (props cell),
      v_message = msg, v_principle = principle\<rparr>"

definition nonChannelChildren :: "discovered_cell \<Rightarrow> discovered_cell list" where
  "nonChannelChildren cell =
     filter (\<lambda>c. cellType (identity (props c)) \<noteq> ''channel'') (children cell)"

definition channelChildren :: "discovered_cell \<Rightarrow> discovered_cell list" where
  "channelChildren cell =
     filter (\<lambda>c. cellType (identity (props c)) = ''channel'') (children cell)"

definition topologyMessage :: "nat \<Rightarrow> string" where
  "topologyMessage n =
     ''Cell has '' @ show_nat n @
     '' non-channel children but no Channel to mediate communication. '' @
     ''All sibling communication must pass through Channels.''"

text \<open>The three groups of violations of one cell, in the order the loop body pushes them.\<close>

definition topologyViolations :: "discovered_cell \<Rightarrow> violation list" where
  "topologyViolations cell =
     (if length (nonChannelChildren cell) \<ge> 2 \<and> length (channelChildren cell) = 0
      then [ctx cell ''III'' (topologyMessage (length (nonChannelChildren cell)))]
      else [])"

definition contextMapChildViolations :: "discovered_cell \<Rightarrow> violation list" where
  "contextMapChildViolations cell =
     (let contextMapChildren =
            (case cm_children (contextMap (props cell)) of Some cs \<Rightarrow> cs | None \<Rightarrow> []);
          actualChildNames = map (\<lambda>c. name (identity (props c))) (children cell)
      in concat (map (\<lambda>childName.
           if childName \<notin> set contextMapChildren
           then [ctx cell ''III''
                  (''Child '' @ dq @ childName @ dq @
                   '' exists but is not listed in parent'' @ apos @ ''s context map'')]
           else []) actualChildNames))"

definition contextMapChannelViolations :: "discovered_cell \<Rightarrow> violation list" where
  "contextMapChannelViolations cell =
     (let contextMapChannels =
            (case cm_channels (contextMap (props cell)) of Some cs \<Rightarrow> cs | None \<Rightarrow> []);
          actualChannelNames = map (\<lambda>c. name (identity (props c))) (channelChildren cell)
      in concat (map (\<lambda>chanName.
           if chanName \<notin> set contextMapChannels
           then [ctx cell ''III''
                  (''Channel '' @ dq @ chanName @ dq @
                   '' exists as a child but is not listed in parent'' @ apos @
                   ''s context map channels'')]
           else []) actualChannelNames))"

function compositionCheck :: "discovered_cell list \<Rightarrow> check_result" where
  "compositionCheck cells =
     (let vs = concat (map (\<lambda>cell.
            if length (children cell) = 0 then []
            else topologyViolations cell @
                 contextMapChildViolations cell @
                 contextMapChannelViolations cell @
                 concat (map (\<lambda>child.
                   if length (children child) > 0
                   then violations (compositionCheck [child])
                   else []) (children cell))) cells)
      in \<lparr>checkName = ''Composition Check'', passed = (length vs = 0), violations = vs\<rparr>)"
  by pat_completeness auto
termination
  by (relation "measure (size_list size)") (simp_all add: size_grandchild)

section \<open>Signature check (validator/src/checks/signature-check.ts)\<close>

text \<open>\<open>SHA256_REGEX = /^[0-9a-f]{64}$/\<close>.\<close>

definition is_lower_hex :: "char \<Rightarrow> bool" where
  "is_lower_hex c \<longleftrightarrow>
     (CHR ''0'' \<le> c \<and> c \<le> CHR ''9'') \<or> (CHR ''a'' \<le> c \<and> c \<le> CHR ''f'')"

definition SHA256_REGEX_test :: "string \<Rightarrow> bool" where
  "SHA256_REGEX_test s \<longleftrightarrow> length s = 64 \<and> list_all is_lower_hex s"

definition recomputeHash :: "node_runtime \<Rightarrow> discovered_cell \<Rightarrow> string" where
  "recomputeHash rt cell =
     (let ownContent =
            name (identity (props cell)) @
            cellType (identity (props cell)) @
            version (identity (props cell)) @
            JSON_stringify rt (schema (cell_input (props cell))) @
            JSON_stringify rt (schema (cell_output (props cell))) @
            source (lineage (props cell)) @
            trigger (lineage (props cell)) @
            justification (lineage (props cell))
      in if length (children cell) = 0 then createHash_sha256_hex rt ownContent
         else
           (let sortedChildHashes = sort (map (\<lambda>c. hash (signature (props c))) (children cell));
                content = ownContent @ concat sortedChildHashes
            in createHash_sha256_hex rt content))"

definition formatViolations :: "discovered_cell \<Rightarrow> violation list" where
  "formatViolations cell =
     [ctx cell ''X''
        (''Invalid signature hash format: '' @ dq @
         take 20 (hash (signature (props cell))) @ ''...'' @ dq)]"

definition mismatchViolations :: "node_runtime \<Rightarrow> discovered_cell \<Rightarrow> violation list" where
  "mismatchViolations rt cell =
     (let expected = recomputeHash rt cell
      in if hash (signature (props cell)) \<noteq> expected
         then [ctx cell ''X''
                (''Signature mismatch: stored '' @ take 16 (hash (signature (props cell))) @
                 ''... != computed '' @ take 16 expected @ ''...'')]
         else [])"

text \<open>
  The loop over the child hashes pushes one violation at the first index where the
  two lists differ, and breaks. Both lists have the same length where it runs.
\<close>

fun firstMismatch :: "nat \<Rightarrow> string list \<Rightarrow> string list \<Rightarrow> nat option" where
  "firstMismatch i (x # xs) (y # ys) = (if x \<noteq> y then Some i else firstMismatch (Suc i) xs ys)"
| "firstMismatch i _ _ = None"

definition childListViolations :: "discovered_cell \<Rightarrow> violation list" where
  "childListViolations cell =
     (if length (children cell) > 0 then
        (let sortedChildHashes = sort (map (\<lambda>c. hash (signature (props c))) (children cell));
             sigChildren =
               (case sig_children (signature (props cell)) of Some cs \<Rightarrow> cs | None \<Rightarrow> [])
         in if length sigChildren \<noteq> length sortedChildHashes
            then [ctx cell ''X''
                   (''Signature children count mismatch: '' @ show_nat (length sigChildren) @
                    '' in signature vs '' @ show_nat (length sortedChildHashes) @ '' actual'')]
            else (case firstMismatch 0 sigChildren sortedChildHashes of
                    Some i \<Rightarrow>
                      [ctx cell ''X'' (''Signature children hash mismatch at index '' @ show_nat i)]
                  | None \<Rightarrow> []))
      else [])"

definition timestampViolations :: "discovered_cell \<Rightarrow> violation list" where
  "timestampViolations cell =
     (if timestamp (signature (props cell)) = []
      then [ctx cell ''X'' ''Missing signature.timestamp'']
      else [])"

function signatureCheck :: "node_runtime \<Rightarrow> discovered_cell list \<Rightarrow> check_result" where
  "signatureCheck rt cells =
     (let vs = concat (map (\<lambda>cell.
            if hash (signature (props cell)) = [] \<or>
               \<not> SHA256_REGEX_test (hash (signature (props cell)))
            then formatViolations cell
            else mismatchViolations rt cell @
                 childListViolations cell @
                 timestampViolations cell @
                 (if length (children cell) > 0
                  then violations (signatureCheck rt (children cell))
                  else [])) cells)
      in \<lparr>checkName = ''Signature Check'', passed = (length vs = 0), violations = vs\<rparr>)"
  by pat_completeness auto
termination
  by (relation "measure (\<lambda>(rt, cells). size_list size cells)") (simp_all add: size_child_list)

declare compositionCheck.simps [simp del]

declare signatureCheck.simps [simp del]

section \<open>Circuit breaker check (validator/src/checks/circuit-breaker-check.ts)\<close>

definition needsCircuitBreaker :: "discovered_cell \<Rightarrow> bool" where
  "needsCircuitBreaker cell \<longleftrightarrow>
     cellType (identity (props cell)) = ''transformer'' \<or>
     cellType (identity (props cell)) = ''reactor''"

text \<open>The first \<open>if / else if\<close> of the inner function \<open>check\<close>: health must report the budget.\<close>

definition healthViolations :: "discovered_cell \<Rightarrow> violation list" where
  "healthViolations cell =
     (if \<not> hasHealthMethod (props cell)
      then [ctx cell ''II''
             (cellType (identity (props cell)) @ '' lacks health() method '' @ emdash @
              '' cannot report circuit breaker status'')]
      else (case healthReport (props cell) of
              Some hr \<Rightarrow>
                if budgetRemaining hr = JUndefined
                then [ctx cell ''II''
                       (cellType (identity (props cell)) @
                        '' health() does not report budgetRemaining '' @ emdash @
                        '' circuit breaker not implemented'')]
                else []
            | None \<Rightarrow> []))"

text \<open>The second \<open>if\<close>: the budget must be a non-negative number.\<close>

definition budgetViolations :: "node_runtime \<Rightarrow> discovered_cell \<Rightarrow> violation list" where
  "budgetViolations rt cell =
     (case healthReport (props cell) of
        Some hr \<Rightarrow>
          if budgetRemaining hr \<noteq> JUndefined then
            (if (case budgetRemaining hr of JNum n \<Rightarrow> js_lt0 n | _ \<Rightarrow> True)
             then [ctx cell ''II''
                    (''budgetRemaining must be a non-negative number, got: '' @
                     js_String rt (budgetRemaining hr))]
             else [])
          else []
      | None \<Rightarrow> [])"

fun check :: "node_runtime \<Rightarrow> discovered_cell \<Rightarrow> violation list" where
  "check rt cell =
     (if needsCircuitBreaker cell then healthViolations cell @ budgetViolations rt cell else []) @
     concat (map (check rt) (children cell))"

definition circuitBreakerCheck :: "node_runtime \<Rightarrow> discovered_cell list \<Rightarrow> check_result" where
  "circuitBreakerCheck rt cells =
     (let vs = concat (map (check rt) cells)
      in \<lparr>checkName = ''Circuit Breaker Check'', passed = (length vs = 0), violations = vs\<rparr>)"

declare check.simps [simp del]

section \<open>The Reactor (sdk/src/reactor.ts)\<close>

text \<open>
  The handler \<open>config.on\<close> is arbitrary user code. It is modelled as a function of the
  event that may change a state \<open>'w\<close> outside the reactor, so that a run of the handler
  is visible. The budget is a JavaScript number, whatever the configuration gives.
\<close>

record ('e, 'r, 'w) reactor_config =
  cfg_name :: string
  cfg_version :: string
  cfg_input :: cell_io
  cfg_output :: cell_io
  cfg_lineage :: cell_lineage
  cfg_parent :: "string option"
  cfg_on :: "'e \<Rightarrow> 'w \<Rightarrow> 'r \<times> 'w"
  cfg_listensTo :: "string list"
  cfg_children :: "universal_contract list option"
  cfg_complexityBudget :: "jsnum option"

record ('e, 'r, 'w) reactor = universal_contract +
  r_on :: "'e \<Rightarrow> 'w \<Rightarrow> 'r \<times> 'w"
  r_listensTo :: "string list"
  r_children :: "universal_contract list"
  r_parent :: "string option"
  r_complexityBudget :: jsnum
  r_maxBudget :: jsnum

definition DEFAULT_COMPLEXITY_BUDGET :: jsnum where
  "DEFAULT_COMPLEXITY_BUDGET = Finite 1000"

definition computeSignature :: "node_runtime \<Rightarrow> string \<Rightarrow> ('e, 'r, 'w) reactor \<Rightarrow> cell_signature" where
  "computeSignature rt now this =
     (if length (r_children this) = 0 then computeLeafSignature rt now this
      else computeComposedSignature rt now this (map signature (r_children this)))"

text \<open>The constructor reads the clock twice: \<open>t0\<close> for the placeholder, \<open>t1\<close> after it.\<close>

definition Reactor :: "node_runtime \<Rightarrow> string \<Rightarrow> string \<Rightarrow> ('e, 'r, 'w) reactor_config
     \<Rightarrow> ('e, 'r, 'w) reactor" where
  "Reactor rt t0 t1 config =
     (let maxBudget =
            (case cfg_complexityBudget config of Some b \<Rightarrow> b | None \<Rightarrow> DEFAULT_COMPLEXITY_BUDGET);
          this =
            \<lparr>identity = \<lparr>name = cfg_name config, cellType = ''reactor'', version = cfg_version config\<rparr>,
             cell_input = cfg_input config,
             cell_output = cfg_output config,
             lineage = cfg_lineage config,
             signature = \<lparr>hash = replicate 64 CHR ''0'', sig_children = None, timestamp = t0\<rparr>,
             r_on = cfg_on config,
             r_listensTo = cfg_listensTo config,
             r_children = (case cfg_children config of Some cs \<Rightarrow> cs | None \<Rightarrow> []),
             r_parent = cfg_parent config,
             r_complexityBudget = maxBudget,
             r_maxBudget = maxBudget\<rparr>
      in this\<lparr>signature := computeSignature rt t1 this\<rparr>)"

datatype error = Error string

text \<open>
  \<open>on(event)\<close>: the result (the thrown error or the handler's response), the reactor
  after the call, and the outside state after it.
\<close>

definition reactor_on ::
  "('e, 'r, 'w) reactor \<Rightarrow> 'e \<Rightarrow> 'w \<Rightarrow> (error + 'r) \<times> ('e, 'r, 'w) reactor \<times> 'w" where
  "reactor_on this event w =
     (if js_le0 (r_complexityBudget this)
      then (Inl (Error (''[Circuit Breaker] Reactor '' @ dq @ name (identity this) @ dq @
                        '' is in Safe-Mode '' @ emdash @ '' complexity budget exhausted'')),
            this, w)
      else (let this' = this\<lparr>r_complexityBudget := js_decrement (r_complexityBudget this)\<rparr>;
                (response, w') = r_on this' event w
            in (Inr response, this', w')))"



text \<open>A caller that sends a list of events, one \<open>on()\<close> after the other.\<close>

fun on_each ::
  "('e, 'r, 'w) reactor \<Rightarrow> 'e list \<Rightarrow> 'w \<Rightarrow> (error + 'r) list \<times> ('e, 'r, 'w) reactor \<times> 'w" where
  "on_each this [] w = ([], this, w)"
| "on_each this (event # events) w =
     (case reactor_on this event w of
        (res, this', w') \<Rightarrow>
          (case on_each this' events w' of
             (ress, this'', w'') \<Rightarrow> (res # ress, this'', w'')))"

section \<open>Signing a cell\<close>

text \<open>
  What the private \<open>computeSignature()\<close> of every cell class does (reactor.ts, keeper.ts,
  channel.ts), for any object with the contract's fields and the signatures of its
  children: a leaf signature without children, a composed one otherwise.
\<close>

definition freshSignature ::
  "node_runtime \<Rightarrow> string \<Rightarrow> 'a universal_contract_scheme \<Rightarrow> cell_signature list
     \<Rightarrow> cell_signature" where
  "freshSignature rt now cell childSignatures =
     (if length childSignatures = 0 then computeLeafSignature rt now cell
      else computeComposedSignature rt now cell childSignatures)"

section \<open>What the fingerprint hashes\<close>

text \<open>
  The second cell differs from the first in exactly one of \<open>lineage.source\<close>,
  \<open>lineage.trigger\<close> and \<open>lineage.justification\<close>, and in no other field that
  \<open>cellContent\<close> reads.
\<close>

definition changesOneProvenanceField ::
  "'a universal_contract_scheme \<Rightarrow> 'a universal_contract_scheme \<Rightarrow> bool" where
  "changesOneProvenanceField c c' \<longleftrightarrow>
     identity c' = identity c \<and>
     schema (cell_input c') = schema (cell_input c) \<and>
     schema (cell_output c') = schema (cell_output c) \<and>
     ((source (lineage c') \<noteq> source (lineage c) \<and>
       trigger (lineage c') = trigger (lineage c) \<and>
       justification (lineage c') = justification (lineage c)) \<or>
      (source (lineage c') = source (lineage c) \<and>
       trigger (lineage c') \<noteq> trigger (lineage c) \<and>
       justification (lineage c') = justification (lineage c)) \<or>
      (source (lineage c') = source (lineage c) \<and>
       trigger (lineage c') = trigger (lineage c) \<and>
       justification (lineage c') \<noteq> justification (lineage c)))"

section \<open>The parsed cell (parser/src/types.ts)\<close>

text \<open>
  The field names of the parser's types carry a prefix where the SDK's types use the
  same name. A property that a JavaScript object may lack is an \<open>option\<close>.
\<close>

record parsed_identity =
  fc_name :: string
  fc_version :: string
  fc_type :: string

record parsed_lineage =
  fc_source :: string
  fc_trigger :: string
  fc_justification :: string
  parent_context_hash :: string

record circuit_breaker_spec =
  complexity_budget :: jsnum
  safe_mode_action :: string

text \<open>
  \<open>CellContract\<close> is the union of four object shapes, told apart by \<open>identity.type\<close>
  only. One record holds the properties of all four; a shape leaves the others out.
\<close>

record cell_contract =
  c_input :: "string option"
  c_output :: "string option"
  listens_to :: "string option"
  emits :: "string option"
  state_schema :: "string option"
  operations :: "string list option"
  carries :: "string option"
  mode :: "string option"
  buffer_size :: "jsnum option"
  circuit_breaker :: "circuit_breaker_spec option"

record cell_logic =
  lang :: string
  l_process :: "string option"
  l_on :: "string option"
  l_get :: "string option"
  l_set :: "string option"
  l_delete :: "string option"

record child_ref =
  ref :: string
  ref_as :: string

record topology_edge =
  edge_from :: string
  edge_to :: string

record channel_declaration =
  ch_name :: string
  topology :: "topology_edge list"

record channel_connects =
  connects_from :: string
  connects_to :: string

record parsed_cell =
  pc_identity :: parsed_identity
  pc_contract :: cell_contract
  pc_lineage :: parsed_lineage
  pc_logic :: "cell_logic option"
  pc_signature :: string
  pc_children :: "child_ref list option"
  pc_channels :: "channel_declaration list option"
  pc_connects :: "channel_connects option"

definition SAFE_MODE_ACTIONS_own :: "(string \<times> string) list" where
  "SAFE_MODE_ACTIONS_own =
     [(''Transformer'', ''halt''),
      (''Reactor'', ''halt''),
      (''Keeper'', ''read_only''),
      (''Channel'', ''drop_newest'')]"

section \<open>The parser (parser/src/parse.ts)\<close>

text \<open>Truthiness, \<open>typeof v === "object"\<close>, \<open>v ?? d\<close> and the read of a property.\<close>

fun truthy :: "jsval \<Rightarrow> bool" where
  "truthy JUndefined = False"
| "truthy JNull = False"
| "truthy (JBool b) = b"
| "truthy (JNum n) = (n \<noteq> Finite 0 \<and> n \<noteq> NaN)"
| "truthy (JStr s) = (s \<noteq> [])"
| "truthy (JArr xs) = True"
| "truthy (JObj kvs) = True"

fun typeof_object :: "jsval \<Rightarrow> bool" where
  "typeof_object JNull = True"
| "typeof_object (JArr xs) = True"
| "typeof_object (JObj kvs) = True"
| "typeof_object _ = False"

fun nullish_or :: "jsval \<Rightarrow> jsval \<Rightarrow> jsval" where
  "nullish_or JUndefined d = d"
| "nullish_or JNull d = d"
| "nullish_or v d = v"

text \<open>
  The parser reads properties that neither \<open>Object.prototype\<close> nor \<open>Array.prototype\<close>
  has, so a read finds an own property of an object or \<open>undefined\<close>.
\<close>

fun get_prop :: "jsval \<Rightarrow> string \<Rightarrow> jsval" where
  "get_prop (JObj kvs) k = (case map_of kvs k of Some v \<Rightarrow> v | None \<Rightarrow> JUndefined)"
| "get_prop _ k = JUndefined"

text \<open>\<open>String(obj.k ?? "")\<close>, the parser's reading of a string field.\<close>

definition str_field :: "node_runtime \<Rightarrow> jsval \<Rightarrow> string \<Rightarrow> string" where
  "str_field rt obj k = js_String rt (nullish_or (get_prop obj k) (JStr []))"

text \<open>\<open>obj.k !== undefined ? String(obj.k) : absent\<close>, an optional string field.\<close>

definition opt_str_field :: "node_runtime \<Rightarrow> jsval \<Rightarrow> string \<Rightarrow> string option" where
  "opt_str_field rt obj k =
     (if get_prop obj k \<noteq> JUndefined then Some (js_String rt (get_prop obj k)) else None)"

text \<open>\<open>typeof obj.k === "number" ? obj.k : 0\<close>.\<close>

definition num_field :: "jsval \<Rightarrow> string \<Rightarrow> jsnum" where
  "num_field obj k = (case get_prop obj k of JNum n \<Rightarrow> n | _ \<Rightarrow> Finite 0)"

definition extractIdentity :: "node_runtime \<Rightarrow> jsval \<Rightarrow> parsed_identity" where
  "extractIdentity rt raw =
     (if \<not> truthy raw \<or> \<not> typeof_object raw
      then \<lparr>fc_name = [], fc_version = [], fc_type = ''Transformer''\<rparr>
      else \<lparr>fc_name = str_field rt raw ''name'',
            fc_version = str_field rt raw ''version'',
            fc_type = str_field rt raw ''type''\<rparr>)"

definition extractLineage :: "node_runtime \<Rightarrow> jsval \<Rightarrow> parsed_lineage" where
  "extractLineage rt raw =
     (if \<not> truthy raw \<or> \<not> typeof_object raw
      then \<lparr>fc_source = [], fc_trigger = [], fc_justification = [], parent_context_hash = []\<rparr>
      else \<lparr>fc_source = str_field rt raw ''source'',
            fc_trigger = str_field rt raw ''trigger'',
            fc_justification = str_field rt raw ''justification'',
            parent_context_hash = str_field rt raw ''parent_context_hash''\<rparr>)"

definition extractLogic :: "node_runtime \<Rightarrow> jsval \<Rightarrow> cell_logic option" where
  "extractLogic rt raw =
     (if \<not> truthy raw \<or> \<not> typeof_object raw then None
      else Some
        \<lparr>lang = str_field rt raw ''lang'',
         l_process = opt_str_field rt raw ''process'',
         l_on = opt_str_field rt raw ''on'',
         l_get = opt_str_field rt raw ''get'',
         l_set = opt_str_field rt raw ''set'',
         l_delete = opt_str_field rt raw ''delete''\<rparr>)"

definition extractSignature :: "jsval \<Rightarrow> string" where
  "extractSignature raw = (case raw of JStr s \<Rightarrow> s | _ \<Rightarrow> [])"

definition extractCircuitBreaker :: "node_runtime \<Rightarrow> jsval \<Rightarrow> circuit_breaker_spec" where
  "extractCircuitBreaker rt raw =
     (if \<not> truthy raw \<or> \<not> typeof_object raw
      then \<lparr>complexity_budget = Finite 0, safe_mode_action = []\<rparr>
      else \<lparr>complexity_budget = num_field raw ''complexity_budget'',
            safe_mode_action = str_field rt raw ''safe_mode_action''\<rparr>)"

text \<open>An object literal of the parser names some properties; the others are absent.\<close>

definition no_contract_fields :: cell_contract where
  "no_contract_fields =
     \<lparr>c_input = None, c_output = None, listens_to = None, emits = None, state_schema = None,
      operations = None, carries = None, mode = None, buffer_size = None,
      circuit_breaker = None\<rparr>"

definition extractContract :: "node_runtime \<Rightarrow> string \<Rightarrow> jsval \<Rightarrow> cell_contract" where
  "extractContract rt kind raw =
     (if \<not> truthy raw \<or> \<not> typeof_object raw
      then no_contract_fields
             \<lparr>c_input := Some [], c_output := Some [],
              circuit_breaker :=
                Some \<lparr>complexity_budget = Finite 0, safe_mode_action = ''halt''\<rparr>\<rparr>
      else
        (let cb = extractCircuitBreaker rt (get_prop raw ''circuit_breaker'')
         in if kind = ''Transformer'' then
              no_contract_fields
                \<lparr>c_input := Some (str_field rt raw ''input''),
                 c_output := Some (str_field rt raw ''output''),
                 circuit_breaker := Some cb\<rparr>
            else if kind = ''Reactor'' then
              no_contract_fields
                \<lparr>listens_to := Some (str_field rt raw ''listens_to''),
                 emits := Some (str_field rt raw ''emits''),
                 circuit_breaker := Some cb\<rparr>
            else if kind = ''Keeper'' then
              no_contract_fields
                \<lparr>state_schema := Some (str_field rt raw ''state_schema''),
                 operations :=
                   Some (case get_prop raw ''operations'' of
                           JArr xs \<Rightarrow> map (js_String rt) xs
                         | _ \<Rightarrow> []),
                 circuit_breaker := Some cb\<rparr>
            else if kind = ''Channel'' then
              no_contract_fields
                \<lparr>carries := Some (str_field rt raw ''carries''),
                 mode := Some (str_field rt raw ''mode''),
                 buffer_size := Some (num_field raw ''buffer_size''),
                 circuit_breaker := Some cb\<rparr>
            else
              no_contract_fields
                \<lparr>c_input := Some (str_field rt raw ''input''),
                 c_output := Some (str_field rt raw ''output''),
                 circuit_breaker := Some cb\<rparr>))"

definition extractChildren :: "node_runtime \<Rightarrow> jsval \<Rightarrow> child_ref list option" where
  "extractChildren rt raw =
     (case raw of
        JArr items \<Rightarrow>
          Some (map (\<lambda>item. \<lparr>ref = str_field rt item ''ref'', ref_as = str_field rt item ''as''\<rparr>)
                  items)
      | _ \<Rightarrow> None)"

definition extractChannels :: "node_runtime \<Rightarrow> jsval \<Rightarrow> channel_declaration list option" where
  "extractChannels rt raw =
     (case raw of
        JArr items \<Rightarrow>
          Some (map (\<lambda>item.
                  \<lparr>ch_name = str_field rt item ''name'',
                   topology =
                     (case get_prop item ''topology'' of
                        JArr edges \<Rightarrow>
                          map (\<lambda>edge. \<lparr>edge_from = str_field rt edge ''from'',
                                       edge_to = str_field rt edge ''to''\<rparr>) edges
                      | _ \<Rightarrow> [])\<rparr>)
                  items)
      | _ \<Rightarrow> None)"

definition extractConnects :: "node_runtime \<Rightarrow> jsval \<Rightarrow> channel_connects option" where
  "extractConnects rt raw =
     (if \<not> truthy raw \<or> \<not> typeof_object raw then None
      else Some \<lparr>connects_from = str_field rt raw ''from'',
                 connects_to = str_field rt raw ''to''\<rparr>)"

definition extractCell :: "node_runtime \<Rightarrow> jsval \<Rightarrow> parsed_cell" where
  "extractCell rt raw =
     (let identity' = extractIdentity rt (get_prop raw ''identity'');
          contract' = extractContract rt (fc_type identity') (get_prop raw ''contract'');
          lineage' = extractLineage rt (get_prop raw ''lineage'');
          logic' = extractLogic rt (get_prop raw ''logic'');
          signature' = extractSignature (get_prop raw ''signature'');
          children' = extractChildren rt (get_prop raw ''children'');
          channels' = extractChannels rt (get_prop raw ''channels'');
          connects' = extractConnects rt (get_prop raw ''connects'')
      in \<lparr>pc_identity = identity', pc_contract = contract', pc_lineage = lineage',
          pc_logic = logic', pc_signature = signature', pc_children = children',
          pc_channels = channels', pc_connects = connects'\<rparr>)"

text \<open>
  \<open>yaml.load\<close> is the library's: it returns the loaded document or throws its own
  exception on a syntax error. It is a parameter of \<open>parseFC\<close>.
\<close>

datatype parse_failure = YAMLException string | ParseError string

definition parseFC ::
  "(string \<Rightarrow> string + jsval) \<Rightarrow> node_runtime \<Rightarrow> string \<Rightarrow> parse_failure + parsed_cell" where
  "parseFC yaml_load rt content =
     (case yaml_load content of
        Inl msg \<Rightarrow> Inl (YAMLException msg)
      | Inr doc \<Rightarrow>
          if \<not> truthy doc \<or> \<not> typeof_object doc
          then Inl (ParseError ''File is not a valid YAML document'')
          else
            (let cell = get_prop doc ''cell''
             in if \<not> truthy cell \<or> \<not> typeof_object cell
                then Inl (ParseError (''Missing root '' @ dq @ ''cell'' @ dq @ '' key''))
                else Inr (extractCell rt cell)))"

section \<open>Validation of the circuit breaker and of the signature (parser/src/validate.ts)\<close>

record validation_violation =
  vv_field :: string
  vv_message :: string

record validation_result =
  vr_valid :: bool
  vr_violations :: "validation_violation list"

text \<open>
  \<open>s.trim()\<close> is empty when \<open>s\<close> holds white space and line terminators only. Strings
  are lists of 8-bit characters here, so these are the ones up to \<open>U+00FF\<close>.
\<close>

definition is_space :: "char \<Rightarrow> bool" where
  "is_space c \<longleftrightarrow> c \<in> set [CHR 0x09, CHR 0x0A, CHR 0x0B, CHR 0x0C, CHR 0x0D, CHR 0x20, CHR 0xA0]"

text \<open>\<open>!s || !s.trim()\<close>.\<close>

definition is_blank :: "string \<Rightarrow> bool" where
  "is_blank s \<longleftrightarrow> s = [] \<or> list_all is_space s"

text \<open>
  \<open>SAFE_MODE_ACTIONS[cell.identity.type]\<close> reads a property of an object literal under
  a key the document chose: an own property for the four cell types, a member of
  \<open>Object.prototype\<close> for the names that has, and \<open>undefined\<close> otherwise.
\<close>

definition Object_prototype_names :: "string list" where
  "Object_prototype_names =
     [''constructor'', ''hasOwnProperty'', ''isPrototypeOf'', ''propertyIsEnumerable'',
      ''toLocaleString'', ''toString'', ''valueOf'', ''__proto__'',
      ''__defineGetter__'', ''__defineSetter__'', ''__lookupGetter__'', ''__lookupSetter__'']"

datatype looked_up = OwnValue string | InheritedMember string | NotFound

definition SAFE_MODE_ACTIONS :: "string \<Rightarrow> looked_up" where
  "SAFE_MODE_ACTIONS k =
     (case map_of SAFE_MODE_ACTIONS_own k of
        Some a \<Rightarrow> OwnValue a
      | None \<Rightarrow> if k \<in> set Object_prototype_names then InheritedMember k else NotFound)"

definition validateCircuitBreaker :: "node_runtime \<Rightarrow> parsed_cell \<Rightarrow> validation_violation list" where
  "validateCircuitBreaker rt cell =
     (case circuit_breaker (pc_contract cell) of
        None \<Rightarrow>
          [\<lparr>vv_field = ''contract.circuit_breaker'',
            vv_message = ''circuit_breaker configuration is required''\<rparr>]
      | Some cb \<Rightarrow>
          (if \<not> Number_isInteger (complexity_budget cb) \<or> js_le0 (complexity_budget cb)
           then [\<lparr>vv_field = ''contract.circuit_breaker.complexity_budget'',
                  vv_message = ''complexity_budget must be a positive integer, got '' @
                               Number_toString rt (complexity_budget cb)\<rparr>]
           else []) @
          (case SAFE_MODE_ACTIONS (fc_type (pc_identity cell)) of
             OwnValue expectedAction \<Rightarrow>
               if expectedAction \<noteq> [] \<and> safe_mode_action cb \<noteq> expectedAction
               then [\<lparr>vv_field = ''contract.circuit_breaker.safe_mode_action'',
                      vv_message = ''safe_mode_action for '' @ fc_type (pc_identity cell) @
                                   '' must be '' @ dq @ expectedAction @ dq @ '', got '' @ dq @
                                   safe_mode_action cb @ dq\<rparr>]
               else []
           | InheritedMember k \<Rightarrow>
               [\<lparr>vv_field = ''contract.circuit_breaker.safe_mode_action'',
                 vv_message = ''safe_mode_action for '' @ fc_type (pc_identity cell) @
                              '' must be '' @ dq @ Object_prototype_member_toString rt k @ dq @
                              '', got '' @ dq @ safe_mode_action cb @ dq\<rparr>]
           | NotFound \<Rightarrow> []) @
          (if is_blank (safe_mode_action cb)
           then [\<lparr>vv_field = ''contract.circuit_breaker.safe_mode_action'',
                  vv_message = ''safe_mode_action is required''\<rparr>]
           else []))"

definition validateSignature :: "parsed_cell \<Rightarrow> validation_violation list" where
  "validateSignature cell =
     (if is_blank (pc_signature cell)
      then [\<lparr>vv_field = ''signature'', vv_message = ''signature is required (hex string)''\<rparr>]
      else [])"

section \<open>The skill loader (fractalclaw/src/skill-loader.ts)\<close>

record skill_violation =
  sv_principle :: string
  sv_message :: string

record skill_verdict =
  verdict_name :: string
  verdict_cellType :: string
  accepted :: bool
  verdict_signature :: "string option"
  computedSignature :: "string option"
  allViolationMessages :: "skill_violation list"

record scan_violation =
  scan_pattern :: string
  scan_principle :: string
  scan_message :: string

record scan_result =
  scan_cellName :: string
  scan_passed :: bool
  scan_violations :: "scan_violation list"

text \<open>
  What the loader takes from the file system and from its collaborators:
  \<open>readFileSync\<close> (the content, or the message of the error it throws), \<open>yaml.load\<close>,
  \<open>path.basename(filePath, ".fc")\<close>, \<open>discoverTypes\<close>, the whole of \<open>validateCell\<close>,
  \<open>scanLogicBody\<close>, and \<open>resolveTypeSchema\<close>, whose type name is \<open>undefined\<close> when the
  contract lacks the property.
\<close>

record skill_env =
  readFileSync :: "string \<Rightarrow> string + string"
  yaml_load :: "string \<Rightarrow> string + jsval"
  basename_fc :: "string \<Rightarrow> string"
  discoverTypes :: "string \<Rightarrow> string list"
  validateCell :: "parsed_cell \<Rightarrow> string \<Rightarrow> string list \<Rightarrow> validation_result"
  scanLogicBody :: "string \<Rightarrow> cell_logic option \<Rightarrow> scan_result"
  resolveTypeSchema :: "string option \<Rightarrow> string \<Rightarrow> jsval"

text \<open>\<open>String.prototype.toLowerCase\<close> on the characters up to \<open>U+00FF\<close>.\<close>

definition lower_char :: "char \<Rightarrow> char" where
  "lower_char c =
     (if (CHR ''A'' \<le> c \<and> c \<le> CHR ''Z'') \<or>
         (CHR 0xC0 \<le> c \<and> c \<le> CHR 0xDE \<and> c \<noteq> CHR 0xD7)
      then char_of (of_char c + (32::nat)) else c)"

definition toLowerCase :: "string \<Rightarrow> string" where
  "toLowerCase s = map lower_char s"

definition computeExpectedSignature ::
  "skill_env \<Rightarrow> node_runtime \<Rightarrow> parsed_cell \<Rightarrow> string \<Rightarrow> string" where
  "computeExpectedSignature env rt cell projectRoot =
     (let name' = fc_name (pc_identity cell);
          cellType' = toLowerCase (fc_type (pc_identity cell));
          version' = fc_version (pc_identity cell);
          contract' = pc_contract cell;
          (inputSchema, outputSchema) =
            (if fc_type (pc_identity cell) = ''Transformer'' then
               (resolveTypeSchema env (c_input contract') projectRoot,
                resolveTypeSchema env (c_output contract') projectRoot)
             else if fc_type (pc_identity cell) = ''Reactor'' then
               (resolveTypeSchema env (listens_to contract') projectRoot,
                resolveTypeSchema env (emits contract') projectRoot)
             else if fc_type (pc_identity cell) = ''Keeper'' then
               (resolveTypeSchema env (state_schema contract') projectRoot,
                resolveTypeSchema env (state_schema contract') projectRoot)
             else (JObj [], JObj []));
          content =
            name' @ cellType' @ version' @
            JSON_stringify rt inputSchema @
            JSON_stringify rt outputSchema @
            fc_source (pc_lineage cell) @
            fc_trigger (pc_lineage cell) @
            fc_justification (pc_lineage cell)
      in createHash_sha256_hex rt content)"

definition MAX_SAFE_BUDGET :: rat where
  "MAX_SAFE_BUDGET = 1000000"

definition checkBudget :: "node_runtime \<Rightarrow> parsed_cell \<Rightarrow> skill_violation list" where
  "checkBudget rt cell =
     (case circuit_breaker (pc_contract cell) of
        None \<Rightarrow> []
      | Some cb \<Rightarrow>
          (let budget = complexity_budget cb
           in (if budget = PosInfinity \<or> js_gt budget MAX_SAFE_BUDGET
               then [\<lparr>sv_principle = ''Circuit Breaker'',
                      sv_message = ''complexity_budget '' @ Number_toString rt budget @
                                   '' exceeds safe maximum''\<rparr>]
               else []) @
              (if js_le0 budget
               then [\<lparr>sv_principle = ''Circuit Breaker'',
                      sv_message = ''complexity_budget '' @ Number_toString rt budget @
                                   '' must be positive''\<rparr>]
               else [])))"

text \<open>Stage 2: the violations of \<open>validateCell\<close>, when it says the cell is not valid.\<close>

definition structureStage ::
  "skill_env \<Rightarrow> parsed_cell \<Rightarrow> string \<Rightarrow> string \<Rightarrow> skill_violation list" where
  "structureStage env parsed file_path projectRoot =
     (let knownTypes = discoverTypes env projectRoot;
          validation = validateCell env parsed file_path knownTypes
      in if \<not> vr_valid validation
         then map (\<lambda>v. \<lparr>sv_principle = ''Structure'',
                         sv_message = vv_field v @ '': '' @ vv_message v\<rparr>)
                (vr_violations validation)
         else [])"

text \<open>Stage 3: the violations of the scan of the logic bodies, when it did not pass.\<close>

definition scanStage :: "skill_env \<Rightarrow> string \<Rightarrow> parsed_cell \<Rightarrow> skill_violation list" where
  "scanStage env cellName parsed =
     (let scanResult = scanLogicBody env cellName (pc_logic parsed)
      in if \<not> scan_passed scanResult
         then map (\<lambda>v. \<lparr>sv_principle = ''Principle '' @ scan_principle v,
                         sv_message = scan_message v\<rparr>)
                (scan_violations scanResult)
         else [])"

text \<open>Stage 4: the declared signature against the computed one.\<close>

definition signatureStage :: "string \<Rightarrow> string \<Rightarrow> skill_violation list" where
  "signatureStage declaredSig computedSig =
     (if declaredSig \<noteq> [] \<and> \<not> prefix ''0x0000'' declaredSig then
        (let normalizedDeclared =
               (if prefix ''0x'' declaredSig then drop 2 declaredSig else declaredSig);
             normalizedComputed = computedSig
         in if normalizedDeclared \<noteq> normalizedComputed
            then [\<lparr>sv_principle = ''Principle X'',
                   sv_message = ''Signature mismatch '' @ emdash @ '' declared '' @
                                take 16 normalizedDeclared @ ''... != computed '' @
                                take 16 normalizedComputed @ ''...''\<rparr>]
            else [])
      else [])"

definition loadSingleSkill :: "skill_env \<Rightarrow> node_runtime \<Rightarrow> string \<Rightarrow> string \<Rightarrow> skill_verdict" where
  "loadSingleSkill env rt file_path projectRoot =
     (let cellName = basename_fc env file_path;
          cellType' = ''unknown'';
          rejected = (\<lambda>msg.
            \<lparr>verdict_name = cellName, verdict_cellType = cellType', accepted = False,
             verdict_signature = None, computedSignature = None,
             allViolationMessages =
               [\<lparr>sv_principle = ''Parse'', sv_message = ''Parse error: '' @ msg\<rparr>]\<rparr>)
      in case readFileSync env file_path of
           Inl msg \<Rightarrow> rejected msg
         | Inr content \<Rightarrow>
             (case parseFC (yaml_load env) rt content of
                Inl (YAMLException msg) \<Rightarrow> rejected msg
              | Inl (ParseError msg) \<Rightarrow> rejected msg
              | Inr parsed \<Rightarrow>
                  (let cellName = fc_name (pc_identity parsed);
                       cellType' = fc_type (pc_identity parsed);
                       computedSig = computeExpectedSignature env rt parsed projectRoot;
                       declaredSig = pc_signature parsed;
                       allViolations =
                         structureStage env parsed file_path projectRoot @
                         scanStage env cellName parsed @
                         signatureStage declaredSig computedSig @
                         checkBudget rt parsed
                   in \<lparr>verdict_name = cellName, verdict_cellType = cellType',
                       accepted = (length allViolations = 0),
                       verdict_signature = Some computedSig,
                       computedSignature = Some computedSig,
                       allViolationMessages = allViolations\<rparr>)))"

section \<open>The budget spec a cell must carry\<close>

text \<open>
  The two conditions of the contract on a budget spec: \<open>max_units\<close> is a positive
  integer no greater than a bound, and the action on exhaustion is the one of the
  cell's kind, which the code keeps in \<open>SAFE_MODE_ACTIONS\<close> (spelled \<open>halt\<close>,
  \<open>read_only\<close> and \<open>drop_newest\<close> there).
\<close>

definition positiveIntegerAtMost :: "jsnum \<Rightarrow> rat \<Rightarrow> bool" where
  "positiveIntegerAtMost n m \<longleftrightarrow>
     (case n of Finite q \<Rightarrow> of_int \<lfloor>q\<rfloor> = q \<and> 0 < q \<and> q \<le> m | _ \<Rightarrow> False)"

definition kindCorrectAction :: "string \<Rightarrow> string option" where
  "kindCorrectAction k = map_of SAFE_MODE_ACTIONS_own k"

section \<open>Example inputs\<close>

text \<open>
  A runtime to run the definitions on concrete inputs: its digest is the identity and
  every schema is printed as \<open>{}\<close>. The theorems below hold for every runtime.
\<close>

definition plain_runtime :: node_runtime where
  "plain_runtime =
     \<lparr>createHash_sha256_hex = (\<lambda>data. data),
      JSON_stringify = (\<lambda>v. ''{}''),
      Number_toString = (\<lambda>n. ''0''),
      Object_prototype_member_toString = (\<lambda>k. ''function '' @ k @ ''() { [native code] }'')\<rparr>"

definition greeter_lineage :: cell_lineage where
  "greeter_lineage =
     \<lparr>source = ''Claude-Opus-4.6'', trigger = ''Issue #1'',
      justification = ''Greets by name.'', lineage_signature = ''abc123''\<rparr>"

definition greeter :: universal_contract where
  "greeter =
     \<lparr>identity = \<lparr>name = ''greeter'', cellType = ''transformer'', version = ''1.0.0''\<rparr>,
      cell_input = \<lparr>schema = JObj [(''type'', JStr ''string'')], description = ''A name to greet''\<rparr>,
      cell_output = \<lparr>schema = JObj [(''type'', JStr ''string'')], description = ''A greeting''\<rparr>,
      lineage = greeter_lineage,
      signature = \<lparr>hash = [], sig_children = None, timestamp = []\<rparr>\<rparr>"

definition sig_a :: cell_signature where
  "sig_a = \<lparr>hash = ''0a'', sig_children = None, timestamp = ''2026-02-16T00:00:00Z''\<rparr>"

definition sig_b :: cell_signature where
  "sig_b = \<lparr>hash = ''f3'', sig_children = None, timestamp = ''2026-02-16T00:00:00Z''\<rparr>"

definition discovered :: "universal_contract \<Rightarrow> discovered_cell list \<Rightarrow> discovered_cell" where
  "discovered c chs =
     DiscoveredCell
       \<lparr>identity = identity c,
        cell_input = cell_input c,
        cell_output = cell_output c,
        lineage = lineage c,
        signature = signature c,
        filePath = ''src/'' @ name (identity c) @ ''.'' @ cellType (identity c) @ ''.ts'',
        contextMap =
          \<lparr>cm_identity = identity c, cm_parent = None,
           cm_children = Some (map (\<lambda>ch. name (identity (props ch))) chs),
           cm_channels = Some (map (\<lambda>ch. name (identity (props ch)))
              (filter (\<lambda>ch. cellType (identity (props ch)) = ''channel'') chs)),
           cm_signature = hash (signature c)\<rparr>,
        hasHealthMethod = True,
        hasToMapMethod = True,
        healthReport = Some (CellHealth ''healthy'' None (JNum (Finite 100)) None)\<rparr>
       chs"

definition named :: "string \<Rightarrow> string \<Rightarrow> universal_contract" where
  "named n t = greeter\<lparr>identity := \<lparr>name = n, cellType = t, version = ''1.0.0''\<rparr>\<rparr>"

text \<open>Two siblings without a channel, and the same two with one.\<close>

definition unmediated_app :: discovered_cell where
  "unmediated_app =
     discovered (named ''app'' ''transformer'')
       [discovered (named ''child-a'' ''transformer'') [],
        discovered (named ''child-b'' ''reactor'') []]"

definition mediated_app :: discovered_cell where
  "mediated_app =
     discovered (named ''app'' ''transformer'')
       [discovered (named ''child-a'' ''transformer'') [],
        discovered (named ''child-b'' ''reactor'') [],
        discovered (named ''pipe'' ''channel'') []]"

text \<open>A reactor that echoes its event and counts the runs of its handler.\<close>

definition echo_config :: "(string, string, nat) reactor_config" where
  "echo_config =
     \<lparr>cfg_name = ''request'', cfg_version = ''1.0.0'',
      cfg_input = \<lparr>schema = JObj [(''type'', JStr ''string'')], description = ''An event''\<rparr>,
      cfg_output = \<lparr>schema = JObj [(''type'', JStr ''string'')], description = ''Its echo''\<rparr>,
      cfg_lineage = greeter_lineage,
      cfg_parent = Some ''app'',
      cfg_on = (\<lambda>event calls. (event @ ''!'', Suc calls)),
      cfg_listensTo = [''greet''],
      cfg_children = None,
      cfg_complexityBudget = Some (Finite 3)\<rparr>"

text \<open>
  A transformer whose health report gives an infinite budget, and one that gives
  \<open>NaN\<close>, as in the validator's adversarial tests.
\<close>

definition budget_cell :: "string \<Rightarrow> jsval \<Rightarrow> discovered_cell" where
  "budget_cell n b =
     (case discovered (named n ''transformer'') [] of
        DiscoveredCell p chs \<Rightarrow>
          DiscoveredCell (p\<lparr>healthReport := Some (CellHealth ''healthy'' None b None)\<rparr>) chs)"

text \<open>A document whose \<open>cell\<close> section has neither \<open>identity\<close> nor \<open>contract\<close>.\<close>

definition bare_document :: jsval where
  "bare_document =
     JObj [(''cell'',
        JObj [(''lineage'',
                 JObj [(''source'', JStr ''Agent-X''), (''trigger'', JStr ''Test''),
                       (''justification'', JStr ''Testing minimal cell.''),
                       (''parent_context_hash'', JStr ''0xabc'')]),
              (''signature'', JStr ''0xdef'')])]"

text \<open>A transformer skill that declares the placeholder signature.\<close>

definition placeholder_document :: jsval where
  "placeholder_document =
     JObj [(''cell'',
        JObj [(''identity'',
                 JObj [(''name'', JStr ''echo''), (''version'', JStr ''1.0.0''),
                       (''type'', JStr ''Transformer'')]),
              (''contract'',
                 JObj [(''input'', JStr ''string''), (''output'', JStr ''string''),
                       (''circuit_breaker'',
                          JObj [(''complexity_budget'', JNum (Finite 100)),
                                (''safe_mode_action'', JStr ''halt'')])]),
              (''lineage'',
                 JObj [(''source'', JStr ''Agent-X''), (''trigger'', JStr ''Test''),
                       (''justification'', JStr ''Echoes its input.''),
                       (''parent_context_hash'', JStr ''0xabc'')]),
              (''logic'',
                 JObj [(''lang'', JStr ''typescript''), (''process'', JStr ''return input;'')]),
              (''signature'', JStr ''0x0000000000000000'')])]"

text \<open>
  An environment in which every file holds that skill, the scan finds nothing, and
  \<open>validateCell\<close> runs the two validators modelled above.
\<close>

definition placeholder_env :: skill_env where
  "placeholder_env =
     \<lparr>readFileSync = (\<lambda>path. Inr ''cell: ...''),
      yaml_load = (\<lambda>content. Inr placeholder_document),
      basename_fc = (\<lambda>path. ''echo.transformer''),
      discoverTypes = (\<lambda>root. []),
      validateCell = (\<lambda>cell path knownTypes.
        \<lparr>vr_valid = (validateCircuitBreaker plain_runtime cell @ validateSignature cell = []),
         vr_violations = validateCircuitBreaker plain_runtime cell @ validateSignature cell\<rparr>),
      scanLogicBody = (\<lambda>cellName logic.
        \<lparr>scan_cellName = cellName, scan_passed = True, scan_violations = []\<rparr>),
      resolveTypeSchema = (\<lambda>typeName root.
        JObj [(''type'', (case typeName of Some t \<Rightarrow> JStr t | None \<Rightarrow> JUndefined))])\<rparr>"

text \<open>What the parser makes of that skill.\<close>

definition echo_parsed :: parsed_cell where
  "echo_parsed =
         \<lparr>pc_identity = \<lparr>fc_name = ''echo'', fc_version = ''1.0.0'', fc_type = ''Transformer''\<rparr>,
          pc_contract = no_contract_fields
            \<lparr>c_input := Some ''string'', c_output := Some ''string'',
             circuit_breaker :=
               Some \<lparr>complexity_budget = Finite 100, safe_mode_action = ''halt''\<rparr>\<rparr>,
          pc_lineage =
            \<lparr>fc_source = ''Agent-X'', fc_trigger = ''Test'',
             fc_justification = ''Echoes its input.'', parent_context_hash = ''0xabc''\<rparr>,
          pc_logic =
            Some \<lparr>lang = ''typescript'', l_process = Some ''return input;'', l_on = None,
                  l_get = None, l_set = None, l_delete = None\<rparr>,
          pc_signature = ''0x0000000000000000'',
          pc_children = None, pc_channels = None, pc_connects = None\<rparr>"

text \<open>Parsed cells with a budget spec of one's choice.\<close>

definition spec_cell :: "string \<Rightarrow> circuit_breaker_spec option \<Rightarrow> parsed_cell" where
  "spec_cell kind cb =
     \<lparr>pc_identity = \<lparr>fc_name = ''cell'', fc_version = ''1.0.0'', fc_type = kind\<rparr>,
      pc_contract = no_contract_fields\<lparr>circuit_breaker := cb\<rparr>,
      pc_lineage =
        \<lparr>fc_source = ''Agent-X'', fc_trigger = ''Test'', fc_justification = ''Testing.'',
         parent_context_hash = ''0xabc''\<rparr>,
      pc_logic = None, pc_signature = ''0xdef'', pc_children = None, pc_channels = None,
      pc_connects = None\<rparr>"

section \<open>Lemmas on the signature engine\<close>

lemma sort_map_mset_cong:
  fixes f :: "'a \<Rightarrow> 'b::linorder"
  assumes "mset xs = mset ys"
  shows "sort (map f xs) = sort (map f ys)"
proof -
  have "mset (map f xs) = mset (map f ys)"
    using assms by (metis mset_map)
  then have "mset (sort (map f ys)) = mset (map f xs)"
    by simp
  then show ?thesis
    by (rule properties_for_sort) simp
qed

lemma cellContent_signature_update [simp]:
  "cellContent rt (cell\<lparr>signature := s\<rparr>) = cellContent rt cell"
  by (simp add: cellContent_def)

lemma firstMismatch_same [simp]: "firstMismatch i xs xs = None"
  by (induction xs arbitrary: i) auto

lemma recomputeHash_leaf:
  "recomputeHash rt (DiscoveredCell p []) = sha256 rt (cellContent rt p)"
  by (simp add: recomputeHash_def cellContent_def sha256_def)

lemma recomputeHash_composed:
  "chs \<noteq> [] \<Longrightarrow>
   recomputeHash rt (DiscoveredCell p chs) =
     sha256 rt (cellContent rt p @ concat (sort (map hash (map (\<lambda>c. signature (props c)) chs))))"
  by (simp add: recomputeHash_def cellContent_def sha256_def Let_def comp_def)

section \<open>C1: round trip of the signature\<close>

text \<open>
  Claim C1. Sign a cell the way the SDK does (a leaf signature when it has no children,
  a composed one over the children's signatures otherwise) and store the result in
  \<open>cell.signature\<close>. Then \<open>verifySignature\<close> with the same child signatures is true
  (also without the optional argument, on a leaf). For the validator's view of such a
  cell, \<open>recomputeHash\<close> gives the stored hash, so \<open>signatureCheck\<close> pushes neither a
  hash mismatch nor a child list mismatch for it: what it reports for the cell is at
  most the format of the hash and a missing timestamp, and what its children have.
\<close>

theorem signature_round_trip:
  fixes cell :: "'a universal_contract_scheme" and p :: discovered_fields
    and rt :: node_runtime and now now' :: string and childSignatures :: "cell_signature list"
    and chs :: "discovered_cell list"
  defines "sig \<equiv> freshSignature rt now cell childSignatures"
  defines "dsig \<equiv> freshSignature rt now p (map (\<lambda>c. signature (props c)) chs)"
  defines "d \<equiv> DiscoveredCell (p\<lparr>signature := dsig\<rparr>) chs"
  shows "verifySignature rt now' (cell\<lparr>signature := sig\<rparr>) (Some childSignatures)
       \<and> (childSignatures = [] \<longrightarrow> verifySignature rt now' (cell\<lparr>signature := sig\<rparr>) None)
       \<and> recomputeHash rt d = hash dsig
       \<and> mismatchViolations rt d = []
       \<and> childListViolations d = []
       \<and> violations (signatureCheck rt [d]) =
            (if hash dsig = [] \<or> \<not> SHA256_REGEX_test (hash dsig) then formatViolations d
             else timestampViolations d @
                  (if length chs > 0 then violations (signatureCheck rt chs) else []))"
proof -
  have v1: "verifySignature rt now' (cell\<lparr>signature := sig\<rparr>) (Some childSignatures)"
    by (simp add: verifySignature_def sig_def freshSignature_def computeLeafSignature_def
        computeComposedSignature_def Let_def)
  have v2: "childSignatures = [] \<longrightarrow> verifySignature rt now' (cell\<lparr>signature := sig\<rparr>) None"
    by (simp add: verifySignature_def sig_def freshSignature_def computeLeafSignature_def)
  have r: "recomputeHash rt d = hash dsig"
  proof (cases "chs = []")
    case True
    then show ?thesis
      by (simp add: d_def dsig_def freshSignature_def recomputeHash_leaf computeLeafSignature_def)
  next
    case False
    then show ?thesis
      by (simp add: d_def dsig_def freshSignature_def recomputeHash_composed
          computeComposedSignature_def Let_def)
  qed
  have h: "hash (signature (props d)) = hash dsig"
    by (simp add: d_def)
  have m: "mismatchViolations rt d = []"
    using r h by (simp add: mismatchViolations_def Let_def)
  have c: "childListViolations d = []"
    by (simp add: childListViolations_def d_def dsig_def freshSignature_def
        computeComposedSignature_def Let_def comp_def)
  have s: "violations (signatureCheck rt [d]) =
            (if hash dsig = [] \<or> \<not> SHA256_REGEX_test (hash dsig) then formatViolations d
             else timestampViolations d @
                  (if length chs > 0 then violations (signatureCheck rt chs) else []))"
    using m c h by (simp add: signatureCheck.simps [of rt "[d]"] Let_def) (simp add: d_def)
  from v1 v2 r m c s show ?thesis by blast
qed

theorem signature_round_trip_witness:
  "verifySignature plain_runtime ''t1''
     (greeter\<lparr>signature := freshSignature plain_runtime ''t0'' greeter [sig_b, sig_a]\<rparr>)
     (Some [sig_b, sig_a])
   \<and> verifySignature plain_runtime ''t1''
     (greeter\<lparr>signature := freshSignature plain_runtime ''t0'' greeter []\<rparr>) None
   \<and> hash (freshSignature plain_runtime ''t0'' greeter [sig_b, sig_a]) =
       ''greetertransformer1.0.0{}{}Claude-Opus-4.6Issue #1Greets by name.0af3''"
  using signature_round_trip [where rt = plain_runtime and now' = "''t1''" and cell = greeter
          and now = "''t0''" and childSignatures = "[sig_b, sig_a]"]
        signature_round_trip [where rt = plain_runtime and now' = "''t1''" and cell = greeter
          and now = "''t0''" and childSignatures = "[]"]
  by (simp add: freshSignature_def computeComposedSignature_def cellContent_def sha256_def
      plain_runtime_def greeter_def greeter_lineage_def sig_a_def sig_b_def)

section \<open>C2: the order of the children does not matter\<close>

text \<open>
  Claim C2. For every permutation of the list of child signatures,
  \<open>computeComposedSignature\<close> gives the same hash and the same list of child
  fingerprints, which is the sorted list of the children's hashes. The validator's
  \<open>recomputeHash\<close> likewise gives the same hash when the children of a cell are
  reordered.
\<close>

theorem composed_signature_order_invariant:
  assumes "mset childSignatures' = mset childSignatures"
    and "mset chs' = mset chs"
  shows "hash (computeComposedSignature rt now' cell childSignatures') =
           hash (computeComposedSignature rt now cell childSignatures)
       \<and> sig_children (computeComposedSignature rt now' cell childSignatures') =
           sig_children (computeComposedSignature rt now cell childSignatures)
       \<and> sig_children (computeComposedSignature rt now cell childSignatures) =
           Some (sort (map hash childSignatures))
       \<and> recomputeHash rt (DiscoveredCell p chs') = recomputeHash rt (DiscoveredCell p chs)"
proof -
  have s: "sort (map hash childSignatures') = sort (map hash childSignatures)"
    using assms(1) by (rule sort_map_mset_cong)
  have e: "chs' = [] \<longleftrightarrow> chs = []"
    using assms(2) by (metis mset_zero_iff)
  have "sort (map (\<lambda>c. hash (signature (props c))) chs') =
        sort (map (\<lambda>c. hash (signature (props c))) chs)"
    using assms(2) by (rule sort_map_mset_cong)
  then have r: "recomputeHash rt (DiscoveredCell p chs') = recomputeHash rt (DiscoveredCell p chs)"
    using e by (simp add: recomputeHash_def Let_def)
  show ?thesis
    using s r by (simp add: computeComposedSignature_def Let_def)
qed

theorem composed_signature_order_invariant_witness:
  "hash (computeComposedSignature plain_runtime ''t1'' greeter [sig_b, sig_a]) =
     hash (computeComposedSignature plain_runtime ''t0'' greeter [sig_a, sig_b])
   \<and> sig_children (computeComposedSignature plain_runtime ''t1'' greeter [sig_b, sig_a]) =
     Some [''0a'', ''f3'']
   \<and> recomputeHash plain_runtime
        (DiscoveredCell (props (discovered greeter []))
           [discovered (greeter\<lparr>signature := sig_b\<rparr>) [],
            discovered (greeter\<lparr>signature := sig_a\<rparr>) []]) =
      recomputeHash plain_runtime
        (DiscoveredCell (props (discovered greeter []))
           [discovered (greeter\<lparr>signature := sig_a\<rparr>) [],
            discovered (greeter\<lparr>signature := sig_b\<rparr>) []])"
  using composed_signature_order_invariant [where childSignatures' = "[sig_b, sig_a]"
      and childSignatures = "[sig_a, sig_b]" and rt = plain_runtime and now' = "''t1''"
      and now = "''t0''" and cell = greeter and p = "props (discovered greeter [])"
      and chs' = "[discovered (greeter\<lparr>signature := sig_b\<rparr>) [],
                   discovered (greeter\<lparr>signature := sig_a\<rparr>) []]"
      and chs = "[discovered (greeter\<lparr>signature := sig_a\<rparr>) [],
                  discovered (greeter\<lparr>signature := sig_b\<rparr>) []]"]
  by (simp add: computeComposedSignature_def sig_a_def sig_b_def)

section \<open>C3: sensitivity to the provenance fields\<close>

lemma content_changes:
  assumes "changesOneProvenanceField c c'"
  shows "cellContent rt c' \<noteq> cellContent rt c"
  using assms by (auto simp: changesOneProvenanceField_def cellContent_def)

section \<open>C4: the budget of a reactor\<close>

text \<open>Decrementing is exact on the integers from 1 to \<open>2^53\<close>; at \<open>2^54\<close> it does nothing.\<close>

lemma round_half_even_of_int [simp]: "round_half_even (of_int k) = k"
  by (simp add: round_half_even_def)

lemma round_half_even_0 [simp]: "round_half_even 0 = 0"
  using round_half_even_of_int [of 0] by simp

lemma finite_exponents: "finite {e \<in> {-1022..1023}. (2::rat) powi e \<le> a}"
  by (rule finite_subset [of _ "{-1022..1023}"]) auto

lemma double_exponent_eq:
  assumes "-1022 \<le> e" and "e \<le> 1023" and "2 powi e \<le> a" and "a < 2 powi (e + 1)"
  shows "double_exponent a = e"
proof -
  let ?S = "{e \<in> {-1022..1023}. (2::rat) powi e \<le> a}"
  have mem: "e \<in> ?S" using assms by simp
  have ub: "y \<le> e" if "y \<in> ?S" for y
  proof (rule ccontr)
    assume "\<not> y \<le> e"
    then have "e + 1 \<le> y" by simp
    then have "(2::rat) powi (e + 1) \<le> 2 powi y"
      by (intro power_int_increasing) simp_all
    with that assms(4) show False by simp
  qed
  have "Max ?S = e"
    using finite_exponents ub mem by (rule Max_eqI)
  then show ?thesis
    using mem by (auto simp: double_exponent_def)
qed



lemma floor_half_odd: "\<lfloor>(18014398509481983 :: rat) / 2\<rfloor> = 9007199254740991"
  by (simp add: floor_eq_iff)

lemma to_double_2_54_minus_1:
  "to_double (18014398509481984 - 1) = Finite 18014398509481984"
proof -
  have e: "double_exponent 18014398509481983 = 53"
    by (rule double_exponent_eq) simp_all
  have r: "round_half_even (18014398509481983 / 2) = 9007199254740992"
    by (simp add: round_half_even_def floor_half_odd Let_def)
  show ?thesis
    by (simp add: to_double_def e r Let_def)
qed








text \<open>
  The claim as it stands, for every budget above zero, fails where doubles are no
  longer exact. A reactor constructed with \<open>complexityBudget = 2^54\<close> answers \<open>on()\<close>,
  runs its handler, and still has \<open>budgetRemaining = 2^54\<close>: \<open>2^54 - 1\<close> is not a double
  and rounds back to \<open>2^54\<close>. No number of calls exhausts it.
\<close>

lemma on_each_never_exhausted:
  assumes "r_complexityBudget this = Finite 18014398509481984"
    and "on_each this events w = (ress, this', w')"
  shows "list_all (\<lambda>res. \<not> isl res) ress \<and> this' = this"
  using assms
proof (induction events arbitrary: w ress)
  case Nil
  then show ?case by simp
next
  case (Cons event events)
  have d: "js_decrement (Finite 18014398509481984) = Finite 18014398509481984"
    using to_double_2_54_minus_1 by simp
  have same: "this\<lparr>r_complexityBudget := Finite 18014398509481984\<rparr> = this"
    using Cons.prems(1) by simp
  obtain response w1 where step: "reactor_on this event w = (Inr response, this, w1)"
    using Cons.prems(1) d same
    by (cases "r_on this event w") (simp add: reactor_on_def Let_def)
  obtain ress1 where
    rest: "on_each this events w1 = (ress1, this', w')" and ress: "ress = Inr response # ress1"
    using Cons.prems(2) step by (auto split: prod.splits)
  from Cons.IH [OF Cons.prems(1) rest]
  show ?case
    by (simp add: ress)
qed


section \<open>C5: composition topology\<close>

lemma str_includes_self: "str_includes (sub @ post) sub"
proof (cases "sub @ post")
  case Nil
  then show ?thesis by simp
next
  case (Cons a list)
  have "prefix sub (sub @ post)" by simp
  then have "prefix sub (a # list)" by (simp only: Cons)
  then have "str_includes (a # list) sub" by simp
  then show ?thesis by (simp only: Cons)
qed

lemma str_includes_append: "str_includes (pre @ sub @ post) sub"
proof (induction pre)
  case Nil
  show ?case using str_includes_self by simp
next
  case (Cons c pre)
  then show ?case by simp
qed

lemma topologyMessage_includes:
  "str_includes (topologyMessage n) ''no Channel to mediate''"
proof -
  have "topologyMessage n =
          (''Cell has '' @ show_nat n @ '' non-channel children but '') @
          ''no Channel to mediate'' @
          '' communication. All sibling communication must pass through Channels.''"
    by (simp add: topologyMessage_def)
  then show ?thesis
    by (simp only: str_includes_append)
qed

lemma compositionCheck_single:
  "violations (compositionCheck [cell]) =
     (if length (children cell) = 0 then []
      else topologyViolations cell @ contextMapChildViolations cell @
           contextMapChannelViolations cell @
           concat (map (\<lambda>child. if length (children child) > 0
                                 then violations (compositionCheck [child]) else [])
                       (children cell)))"
  by (simp add: compositionCheck.simps [of "[cell]"] Let_def)

lemma passed_compositionCheck:
  "passed (compositionCheck cells) \<longleftrightarrow> violations (compositionCheck cells) = []"
  by (simp add: compositionCheck.simps [of cells] Let_def)

lemma contextMapChild_not_topology:
  "v \<in> set (contextMapChildViolations cell) \<Longrightarrow> v_message v \<noteq> topologyMessage n"
  by (auto simp: contextMapChildViolations_def Let_def ctx_def topologyMessage_def
      split: if_splits)

lemma contextMapChannel_not_topology:
  "v \<in> set (contextMapChannelViolations cell) \<Longrightarrow> v_message v \<noteq> topologyMessage n"
  by (auto simp: contextMapChannelViolations_def Let_def ctx_def topologyMessage_def
      split: if_splits)

text \<open>
  Claim C5. A cell with two or more non-channel children and no channel child fails
  \<open>compositionCheck\<close>, with a violation under its name whose message contains
  \<open>no Channel to mediate\<close>. A cell with at least one channel child, and a cell with at
  most one non-channel child, gets no such violation of its own (whatever its other
  children are): a violation with the topology message in the result then comes from
  the check of one of its children, that is from a composed descendant.
\<close>

theorem composition_topology:
  "(length (nonChannelChildren cell) \<ge> 2 \<and> length (channelChildren cell) = 0 \<longrightarrow>
      \<not> passed (compositionCheck [cell]) \<and>
      (\<exists>v \<in> set (violations (compositionCheck [cell])).
         v_cell v = name (identity (props cell)) \<and>
         str_includes (v_message v) ''no Channel to mediate''))
   \<and> (length (channelChildren cell) \<ge> 1 \<or> length (nonChannelChildren cell) \<le> 1 \<longrightarrow>
        topologyViolations cell = [] \<and>
        (\<forall>v \<in> set (violations (compositionCheck [cell])).
           (\<exists>n. v_message v = topologyMessage n) \<longrightarrow>
           (\<exists>child \<in> set (children cell). v \<in> set (violations (compositionCheck [child])))))"
proof (intro conjI impI)
  assume a: "length (nonChannelChildren cell) \<ge> 2 \<and> length (channelChildren cell) = 0"
  then have ne: "length (children cell) \<noteq> 0"
    by (auto simp: nonChannelChildren_def)
  let ?v = "ctx cell ''III'' (topologyMessage (length (nonChannelChildren cell)))"
  have tv: "topologyViolations cell = [?v]"
    using a by (simp add: topologyViolations_def)
  have mem: "?v \<in> set (violations (compositionCheck [cell]))"
    using ne tv by (subst compositionCheck_single) simp
  then show "\<not> passed (compositionCheck [cell])"
    by (auto simp: passed_compositionCheck)
  have "v_cell ?v = name (identity (props cell)) \<and>
        str_includes (v_message ?v) ''no Channel to mediate''"
    by (simp add: ctx_def topologyMessage_includes)
  with mem show "\<exists>v \<in> set (violations (compositionCheck [cell])).
         v_cell v = name (identity (props cell)) \<and>
         str_includes (v_message v) ''no Channel to mediate''"
    by blast
next
  assume b: "length (channelChildren cell) \<ge> 1 \<or> length (nonChannelChildren cell) \<le> 1"
  then show tv: "topologyViolations cell = []"
    by (auto simp: topologyViolations_def)
  show "\<forall>v \<in> set (violations (compositionCheck [cell])).
           (\<exists>n. v_message v = topologyMessage n) \<longrightarrow>
           (\<exists>child \<in> set (children cell). v \<in> set (violations (compositionCheck [child])))"
  proof (intro ballI impI)
    fix v
    assume v: "v \<in> set (violations (compositionCheck [cell]))"
      and t: "\<exists>n. v_message v = topologyMessage n"
    from v have "v \<in> set (if length (children cell) = 0 then []
      else topologyViolations cell @ contextMapChildViolations cell @
           contextMapChannelViolations cell @
           concat (map (\<lambda>child. if length (children child) > 0
                                 then violations (compositionCheck [child]) else [])
                       (children cell)))"
      by (simp only: compositionCheck_single [of cell])
    with tv have "v \<in> set (contextMapChildViolations cell) \<or>
        v \<in> set (contextMapChannelViolations cell) \<or>
        (\<exists>child \<in> set (children cell). v \<in> set (violations (compositionCheck [child])))"
      by (auto split: if_splits)
    with t show "\<exists>child \<in> set (children cell). v \<in> set (violations (compositionCheck [child]))"
      using contextMapChild_not_topology contextMapChannel_not_topology by blast
  qed
qed

lemma mediated_app_passes: "passed (compositionCheck [mediated_app])"
  unfolding passed_compositionCheck
  by (subst compositionCheck_single) (simp add:
      mediated_app_def discovered_def named_def topologyViolations_def
      contextMapChildViolations_def contextMapChannelViolations_def
      nonChannelChildren_def channelChildren_def)

theorem composition_topology_witness:
  "length (nonChannelChildren unmediated_app) = 2
   \<and> length (channelChildren unmediated_app) = 0
   \<and> \<not> passed (compositionCheck [unmediated_app])
   \<and> length (channelChildren mediated_app) = 1
   \<and> topologyViolations mediated_app = []
   \<and> passed (compositionCheck [mediated_app])"
  using composition_topology [of unmediated_app] composition_topology [of mediated_app]
    mediated_app_passes
  by (simp add: nonChannelChildren_def channelChildren_def unmediated_app_def mediated_app_def
      discovered_def named_def)

section \<open>C6: completeness of the budget spec\<close>

lemma budget_reported:
  assumes "\<not> positiveIntegerAtMost b 1000000"
  shows "\<not> Number_isInteger b \<or> js_le0 b \<or> b = PosInfinity \<or> js_gt b MAX_SAFE_BUDGET"
  using assms by (cases b) (auto simp: positiveIntegerAtMost_def MAX_SAFE_BUDGET_def)

text \<open>
  Claim C6. The validation of a parsed cell reports a violation whenever the
  \<open>circuit_breaker\<close> is missing (\<open>validateCircuitBreaker\<close> does), whenever its
  \<open>complexity_budget\<close> is not a positive integer up to 1,000,000 (\<open>validateCircuitBreaker\<close>
  reports what is not a positive integer, \<open>checkBudget\<close> what exceeds the bound), and
  whenever its \<open>safe_mode_action\<close> is not the one of the cell's kind
  (\<open>validateCircuitBreaker\<close> does).
\<close>

theorem budget_spec_completeness:
  "(circuit_breaker (pc_contract cell) = None \<longrightarrow> validateCircuitBreaker rt cell \<noteq> [])
   \<and> (\<forall>cb. circuit_breaker (pc_contract cell) = Some cb \<and>
             \<not> positiveIntegerAtMost (complexity_budget cb) 1000000 \<longrightarrow>
             validateCircuitBreaker rt cell \<noteq> [] \<or> checkBudget rt cell \<noteq> [])
   \<and> (\<forall>cb action. circuit_breaker (pc_contract cell) = Some cb \<and>
             kindCorrectAction (fc_type (pc_identity cell)) = Some action \<and>
             safe_mode_action cb \<noteq> action \<longrightarrow>
             validateCircuitBreaker rt cell \<noteq> [])"
proof (intro conjI allI impI)
  assume "circuit_breaker (pc_contract cell) = None"
  then show "validateCircuitBreaker rt cell \<noteq> []"
    by (simp add: validateCircuitBreaker_def)
next
  fix cb
  assume a: "circuit_breaker (pc_contract cell) = Some cb \<and>
             \<not> positiveIntegerAtMost (complexity_budget cb) 1000000"
  then have "\<not> Number_isInteger (complexity_budget cb) \<or> js_le0 (complexity_budget cb) \<or>
             complexity_budget cb = PosInfinity \<or> js_gt (complexity_budget cb) MAX_SAFE_BUDGET"
    using budget_reported by blast
  then show "validateCircuitBreaker rt cell \<noteq> [] \<or> checkBudget rt cell \<noteq> []"
    using a by (auto simp: validateCircuitBreaker_def checkBudget_def Let_def)
next
  fix cb action
  assume a: "circuit_breaker (pc_contract cell) = Some cb \<and>
             kindCorrectAction (fc_type (pc_identity cell)) = Some action \<and>
             safe_mode_action cb \<noteq> action"
  then have "action \<noteq> []"
    by (auto simp: kindCorrectAction_def SAFE_MODE_ACTIONS_own_def split: if_splits)
  then show "validateCircuitBreaker rt cell \<noteq> []"
    using a by (simp add: validateCircuitBreaker_def kindCorrectAction_def SAFE_MODE_ACTIONS_def)
qed

lemma not_integer_three_halves: "\<not> Number_isInteger (Finite (3 / 2))"
proof -
  have "\<lfloor>3 / 2 :: rat\<rfloor> = 1"
    by (simp add: floor_eq_iff)
  then show ?thesis by simp
qed

theorem budget_spec_completeness_witness:
  "validateCircuitBreaker plain_runtime (spec_cell ''Transformer'' None) \<noteq> []
   \<and> validateCircuitBreaker plain_runtime
        (spec_cell ''Transformer''
           (Some \<lparr>complexity_budget = Finite (3 / 2), safe_mode_action = ''halt''\<rparr>)) \<noteq> []
   \<and> validateCircuitBreaker plain_runtime
        (spec_cell ''Transformer''
           (Some \<lparr>complexity_budget = Finite 2000000, safe_mode_action = ''halt''\<rparr>)) = []
   \<and> checkBudget plain_runtime
        (spec_cell ''Transformer''
           (Some \<lparr>complexity_budget = Finite 2000000, safe_mode_action = ''halt''\<rparr>)) \<noteq> []
   \<and> validateCircuitBreaker plain_runtime
        (spec_cell ''Keeper''
           (Some \<lparr>complexity_budget = Finite 100, safe_mode_action = ''halt''\<rparr>)) \<noteq> []
   \<and> validateCircuitBreaker plain_runtime
        (spec_cell ''Keeper''
           (Some \<lparr>complexity_budget = Finite 100, safe_mode_action = ''read_only''\<rparr>)) = []"
  using budget_spec_completeness [of "spec_cell ''Transformer'' None" plain_runtime]
    budget_spec_completeness [of "spec_cell ''Transformer''
           (Some \<lparr>complexity_budget = Finite 2000000, safe_mode_action = ''halt''\<rparr>)" plain_runtime]
    budget_spec_completeness [of "spec_cell ''Keeper''
           (Some \<lparr>complexity_budget = Finite 100, safe_mode_action = ''halt''\<rparr>)" plain_runtime]
    not_integer_three_halves
  by (simp add: spec_cell_def no_contract_fields_def validateCircuitBreaker_def checkBudget_def
      SAFE_MODE_ACTIONS_def SAFE_MODE_ACTIONS_own_def MAX_SAFE_BUDGET_def is_blank_def
      is_space_def Let_def)

section \<open>C7: the circuit breaker check and budgets that are not finite\<close>

text \<open>
  What the check does: a keeper or a channel gets no violation of its own; a
  transformer or a reactor gets one when it has no \<open>health()\<close>, when its report omits
  \<open>budgetRemaining\<close>, and when \<open>budgetRemaining\<close> is not a number or is below zero.
\<close>

lemma check_exempt_kinds:
  assumes "\<not> needsCircuitBreaker cell"
  shows "check rt cell = concat (map (check rt) (children cell))"
  using assms by (simp add: check.simps [of rt cell])

lemma check_own_violations:
  "healthViolations cell @ budgetViolations rt cell \<noteq> [] \<longleftrightarrow>
     \<not> hasHealthMethod (props cell) \<or>
     (\<exists>hr. healthReport (props cell) = Some hr \<and>
        (budgetRemaining hr = JUndefined \<or>
         (case budgetRemaining hr of JNum n \<Rightarrow> js_lt0 n | _ \<Rightarrow> True)))"
  by (auto simp: healthViolations_def budgetViolations_def split: option.splits jsval.splits)

text \<open>
  Claim C7 says that \<open>circuitBreakerCheck\<close> reports a transformer or reactor whose
  \<open>budgetRemaining\<close> is not a finite non-negative number. The check tests
  \<open>typeof budgetRemaining !== "number" || budgetRemaining < 0\<close>: \<open>Infinity\<close> and \<open>NaN\<close>
  are numbers and neither is below zero, so a transformer that reports one of them
  passes, with no violation. The validator's adversarial tests expect both to be
  rejected.
\<close>

theorem circuit_breaker_accepts_infinite_budget:
  "passed (circuitBreakerCheck rt [budget_cell ''infinite'' (JNum PosInfinity)])
   \<and> violations (circuitBreakerCheck rt [budget_cell ''infinite'' (JNum PosInfinity)]) = []
   \<and> passed (circuitBreakerCheck rt [budget_cell ''nan-budget'' (JNum NaN)])"
  by (simp add: circuitBreakerCheck_def check.simps needsCircuitBreaker_def healthViolations_def
      budgetViolations_def budget_cell_def discovered_def named_def Let_def)

section \<open>C8: what the parser does with a missing section\<close>

text \<open>
  The first half of the claim holds: \<open>parseFC\<close> throws a \<open>ParseError\<close> exactly when the
  loaded document is not an object or its \<open>cell\<close> is not one.
\<close>

lemma parseFC_ParseError_iff:
  "(\<exists>msg. parseFC load rt content = Inl (ParseError msg)) \<longleftrightarrow>
     (\<exists>doc. load content = Inr doc \<and>
        (\<not> truthy doc \<or> \<not> typeof_object doc \<or>
         \<not> truthy (get_prop doc ''cell'') \<or> \<not> typeof_object (get_prop doc ''cell'')))"
  by (auto simp: parseFC_def Let_def split: sum.splits)

text \<open>
  Claim C8 says that the parser never puts a value in the place of a missing one: no
  concrete kind for a missing \<open>identity\<close>, no concrete action for a missing
  \<open>contract\<close>. On a document whose \<open>cell\<close> has neither section, \<open>parseFC\<close> succeeds with
  the kind \<open>Transformer\<close> and the action \<open>halt\<close>; \<open>validateCircuitBreaker\<close> then finds
  the budget of zero but nothing wrong with the action, which is the right one for a
  transformer.
\<close>

theorem parser_defaults_missing_sections:
  "(case parseFC (\<lambda>content. Inr bare_document) rt content of
      Inl failure \<Rightarrow> False
    | Inr parsed \<Rightarrow>
        fc_type (pc_identity parsed) = ''Transformer''
      \<and> circuit_breaker (pc_contract parsed) =
          Some \<lparr>complexity_budget = Finite 0, safe_mode_action = ''halt''\<rparr>
      \<and> map vv_field (validateCircuitBreaker rt parsed) =
          [''contract.circuit_breaker.complexity_budget''])"
  by (simp add: parseFC_def bare_document_def extractCell_def extractIdentity_def
      extractContract_def no_contract_fields_def validateCircuitBreaker_def
      SAFE_MODE_ACTIONS_def SAFE_MODE_ACTIONS_own_def is_blank_def is_space_def Let_def)

theorem parser_defaults_missing_sections_witness:
  "map_sum (\<lambda>failure. ()) (\<lambda>parsed. (fc_type (pc_identity parsed),
       map_option safe_mode_action (circuit_breaker (pc_contract parsed))))
     (parseFC (\<lambda>content. Inr bare_document) plain_runtime ''cell: ...'') =
   Inr (''Transformer'', Some ''halt'')"
  using parser_defaults_missing_sections [of plain_runtime "''cell: ...''"]
  by (simp split: sum.splits)

section \<open>C9: leaf and composed signatures\<close>

text \<open>
  Claim C9. A leaf signature carries no list of child fingerprints. A composed
  signature carries the sorted hashes of the child signatures, as many as there are
  child signatures. \<open>computeSignature\<close> of a cell class chooses between the two by the
  number of the cell's children, so the signature it returns, and the one the
  constructor of a reactor stores, has no list when the cell has no children and a list
  as long as the children otherwise.
\<close>

theorem leaf_composed_signature_invariant:
  "sig_children (computeLeafSignature rt now cell) = None
   \<and> sig_children (computeComposedSignature rt now cell childSignatures) =
       Some (sort (map hash childSignatures))
   \<and> length (sort (map hash childSignatures)) = length childSignatures
   \<and> (case sig_children (freshSignature rt now cell childSignatures) of
         None \<Rightarrow> length childSignatures = 0
       | Some hs \<Rightarrow> length childSignatures > 0 \<and> length hs = length childSignatures)
   \<and> (case sig_children (computeSignature rt now this) of
         None \<Rightarrow> length (r_children this) = 0
       | Some hs \<Rightarrow> length (r_children this) > 0 \<and> length hs = length (r_children this))
   \<and> (case sig_children (signature (Reactor rt t0 t1 config)) of
         None \<Rightarrow> length (r_children (Reactor rt t0 t1 config)) = 0
       | Some hs \<Rightarrow>
           length (r_children (Reactor rt t0 t1 config)) > 0 \<and>
           length hs = length (r_children (Reactor rt t0 t1 config)))"
  by (simp add: computeLeafSignature_def computeComposedSignature_def computeSignature_def
      freshSignature_def Reactor_def Let_def)

theorem leaf_composed_signature_invariant_witness:
  "sig_children (signature (Reactor plain_runtime ''t0'' ''t1'' echo_config)) = None
   \<and> r_children (Reactor plain_runtime ''t0'' ''t1'' echo_config) = []
   \<and> sig_children (signature (Reactor plain_runtime ''t0'' ''t1''
        (echo_config\<lparr>cfg_children :=
           Some [greeter\<lparr>signature := sig_b\<rparr>, greeter\<lparr>signature := sig_a\<rparr>]\<rparr>))) =
      Some [''0a'', ''f3'']"
  using leaf_composed_signature_invariant [where rt = plain_runtime and ?t0.0 = "''t0''"
      and ?t1.0 = "''t1''" and config = echo_config]
    leaf_composed_signature_invariant [where rt = plain_runtime and ?t0.0 = "''t0''"
      and ?t1.0 = "''t1''"
      and config = "echo_config\<lparr>cfg_children :=
           Some [greeter\<lparr>signature := sig_b\<rparr>, greeter\<lparr>signature := sig_a\<rparr>]\<rparr>"]
  by (simp add: Reactor_def computeSignature_def computeLeafSignature_def
      computeComposedSignature_def echo_config_def sig_a_def sig_b_def Let_def)

section \<open>C10: the placeholder signature is not verified\<close>

text \<open>
  Claim C10. Stage 4 of \<open>loadSingleSkill\<close> compares the declared signature with the
  computed one only when the declared one is not empty and does not start with
  \<open>0x0000\<close>. For an empty declared signature and for one that starts with \<open>0x0000\<close> the
  stage reports nothing, whatever the computed signature is: the violations of the
  verdict are those of stages 2, 3 and 5, and the skill is accepted exactly when these
  report nothing. When the comparison runs, it reports nothing exactly when the
  declared signature, without a leading \<open>0x\<close> if it has one, is the computed one.
\<close>

theorem placeholder_bypass:
  "(declaredSig = [] \<or> prefix ''0x0000'' declaredSig \<longrightarrow>
      signatureStage declaredSig computedSig = [])
   \<and> (declaredSig \<noteq> [] \<and> \<not> prefix ''0x0000'' declaredSig \<longrightarrow>
        (signatureStage declaredSig computedSig = [] \<longleftrightarrow>
           (if prefix ''0x'' declaredSig then drop 2 declaredSig else declaredSig) = computedSig))
   \<and> (readFileSync env file_path = Inr content \<and>
        parseFC (yaml_load env) rt content = Inr parsed \<and>
        (pc_signature parsed = [] \<or> prefix ''0x0000'' (pc_signature parsed)) \<longrightarrow>
        allViolationMessages (loadSingleSkill env rt file_path projectRoot) =
          structureStage env parsed file_path projectRoot @
          scanStage env (fc_name (pc_identity parsed)) parsed @
          checkBudget rt parsed
        \<and> (accepted (loadSingleSkill env rt file_path projectRoot) \<longleftrightarrow>
             structureStage env parsed file_path projectRoot = [] \<and>
             scanStage env (fc_name (pc_identity parsed)) parsed = [] \<and>
             checkBudget rt parsed = []))"
  by (auto simp: signatureStage_def loadSingleSkill_def Let_def)

lemma placeholder_parsed:
  "parseFC (yaml_load placeholder_env) plain_runtime ''cell: ...'' = Inr echo_parsed"
  by (simp add: echo_parsed_def parseFC_def placeholder_env_def placeholder_document_def extractCell_def
      extractIdentity_def extractContract_def extractCircuitBreaker_def extractLineage_def
      extractLogic_def extractSignature_def extractChildren_def extractChannels_def
      extractConnects_def str_field_def opt_str_field_def num_field_def no_contract_fields_def
      Let_def)


lemma lower_Transformer: "toLowerCase ''Transformer'' = ''transformer''"
  by code_simp

lemma echo_computed:
  "computeExpectedSignature placeholder_env plain_runtime echo_parsed ''.'' =
     ''echotransformer1.0.0{}{}Agent-XTestEchoes its input.''"
  by (simp add: computeExpectedSignature_def echo_parsed_def no_contract_fields_def
      lower_Transformer plain_runtime_def placeholder_env_def Let_def)

lemma echo_other_stages:
  "structureStage placeholder_env echo_parsed ''skills/echo.transformer.fc'' ''.'' = []
   \<and> scanStage placeholder_env ''echo'' echo_parsed = []
   \<and> checkBudget plain_runtime echo_parsed = []"
  by (simp add: structureStage_def scanStage_def checkBudget_def placeholder_env_def
      echo_parsed_def validateCircuitBreaker_def validateSignature_def SAFE_MODE_ACTIONS_def
      SAFE_MODE_ACTIONS_own_def is_blank_def is_space_def no_contract_fields_def
      MAX_SAFE_BUDGET_def Let_def)

theorem placeholder_bypass_witness:
  "accepted (loadSingleSkill placeholder_env plain_runtime ''skills/echo.transformer.fc'' ''.'')
   \<and> computedSignature
        (loadSingleSkill placeholder_env plain_runtime ''skills/echo.transformer.fc'' ''.'') =
      Some ''echotransformer1.0.0{}{}Agent-XTestEchoes its input.''
   \<and> pc_signature echo_parsed = ''0x0000000000000000''
   \<and> signatureStage ''0xdef'' ''def'' = []
   \<and> signatureStage ''0xdef'' ''abc'' \<noteq> []"
proof -
  have r: "readFileSync placeholder_env ''skills/echo.transformer.fc'' = Inr ''cell: ...''"
    by (simp add: placeholder_env_def)
  have c: "computedSignature
        (loadSingleSkill placeholder_env plain_runtime ''skills/echo.transformer.fc'' ''.'') =
      Some ''echotransformer1.0.0{}{}Agent-XTestEchoes its input.''"
    by (simp add: loadSingleSkill_def r placeholder_parsed echo_computed Let_def)
  have n: "fc_name (pc_identity echo_parsed) = ''echo''"
    and d: "pc_signature echo_parsed = ''0x0000000000000000''"
    by (simp_all add: echo_parsed_def)
  from placeholder_bypass [where env = placeholder_env and rt = plain_runtime
      and file_path = "''skills/echo.transformer.fc''" and content = "''cell: ...''"
      and parsed = echo_parsed and projectRoot = "''.''"]
    placeholder_bypass [where declaredSig = "''0xdef''" and computedSig = "''def''"]
    placeholder_bypass [where declaredSig = "''0xdef''" and computedSig = "''abc''"]
    r c n d placeholder_parsed echo_other_stages
  show ?thesis
    by simp
qed

end
